theory Spec2Isabelle
  imports Main "HOL-Library.Word" "HOL-Library.AList"
begin

section \<open>The pluggable transport over zenoh: data model\<close>

text \<open>
  A shallow embedding of \<^verbatim>\<open>plugin_proposal/lib/src/default_implementation.cpp\<close>.
  A \<^verbatim>\<open>std::string\<close> is a byte string (\<^typ>\<open>string\<close>). Every function of the source that
  talks to zenoh or to user code returns the list of the calls it made, in order, next to
  its result; an exception is the \<open>Inl\<close> of a sum, so the calls made before a
  \<^verbatim>\<open>throw\<close> are kept.
\<close>

record Message =
  payload :: string
  attributes :: string

datatype error =
    runtime_error string
  | ErrorMessage string

subsection \<open>The zenoh values the source handles\<close>

text \<open>
  zenoh is an external library. An owned handle is \<open>None\<close> when it is the null handle
  that \<^verbatim>\<open>z_check\<close> refuses; an attachment is a byte map, or null. A \<^verbatim>\<open>z_bytes_t\<close> is a
  length and a start pointer, so it denotes a byte string; the null \<^verbatim>\<open>z_bytes_t\<close> is the
  empty one.
\<close>

type_synonym z_bytes_t = string
type_synonym z_session = nat
type_synonym z_owned_publisher_t = "nat option"
type_synonym z_owned_queryable_t = "nat option"
type_synonym z_owned_query_t = nat
type_synonym z_attachment_t = "(string \<times> string) list option"

record z_sample_t =
  sample_keyexpr :: string
  sample_payload :: z_bytes_t
  sample_attachment :: z_attachment_t

datatype z_owned_reply_t =
    reply_ok z_sample_t
  | reply_err z_bytes_t

record z_query_t =
  query_id :: nat
  query_keyexpr :: string
  query_value :: z_bytes_t
  query_attachment :: z_attachment_t

datatype cout_item = Str string | Num nat

datatype call =
    Call_open
  | Call_declare_publisher z_session string
  | Call_publisher_put z_owned_publisher_t string z_attachment_t
  | Call_declare_subscriber z_session string
  | Call_declare_queryable z_session string
  | Call_undeclare_queryable z_owned_queryable_t
  | Call_query_clone nat
  | Call_query_reply z_owned_query_t string string z_attachment_t
  | Call_query_drop z_owned_query_t
  | Call_subscriber_callback string string Message
  | Call_rpc_callback string Message
  | ThreadPool_start nat
  | Cout "cout_item list"

text \<open>
  What zenoh answers is a parameter of the model: one field for each zenoh function whose
  answer the source reads (or drops). A return code is an \<^verbatim>\<open>int8_t\<close>, zero for success.
\<close>

record zenoh =
  zenohc_open :: "string + z_session"
  z_declare_publisher :: "z_session \<Rightarrow> string \<Rightarrow> z_owned_publisher_t"
  z_publisher_put :: "z_owned_publisher_t \<Rightarrow> string \<Rightarrow> z_attachment_t \<Rightarrow> 8 word"
  declare_subscriber :: "z_session \<Rightarrow> string \<Rightarrow> string + nat"
  z_declare_queryable :: "z_session \<Rightarrow> string \<Rightarrow> z_owned_queryable_t"
  z_query_reply :: "z_owned_query_t \<Rightarrow> string \<Rightarrow> string \<Rightarrow> z_attachment_t \<Rightarrow> 8 word"

text \<open>
  \<^verbatim>\<open>zenohc::expect\<close> takes the result of a zenoh call that is a value or an
  \<^verbatim>\<open>ErrorMessage\<close>, and throws the \<^verbatim>\<open>ErrorMessage\<close>. \<^verbatim>\<open>z_attachment_get\<close> looks a key up
  and gives the null \<^verbatim>\<open>z_bytes_t\<close> when the key, or the attachment itself, is missing.
  \<^verbatim>\<open>c_str\<close> is the C string of a \<^verbatim>\<open>std::string\<close>: its bytes up to the first zero byte.
\<close>

definition z_check :: "'a option \<Rightarrow> bool" where
  "z_check h = (h \<noteq> None)"

definition c_str :: "string \<Rightarrow> string" where
  "c_str s = takeWhile (\<lambda>c. c \<noteq> CHR 0x00) s"

definition z_bytes_map_insert_by_alias ::
  "(string \<times> string) list \<Rightarrow> string \<Rightarrow> z_bytes_t \<Rightarrow> (string \<times> string) list" where
  "z_bytes_map_insert_by_alias m k v = AList.update k v m"

definition z_bytes_map_as_attachment :: "(string \<times> string) list \<Rightarrow> z_attachment_t" where
  "z_bytes_map_as_attachment m = Some m"

definition z_attachment_get :: "z_attachment_t \<Rightarrow> string \<Rightarrow> z_bytes_t" where
  "z_attachment_get a k =
     (case a of None \<Rightarrow> []
      | Some m \<Rightarrow> (case map_of m k of None \<Rightarrow> [] | Some v \<Rightarrow> v))"

definition zenohc_expect :: "string + 'a \<Rightarrow> error + 'a" where
  "zenohc_expect v = (case v of Inl msg \<Rightarrow> Inl (ErrorMessage msg) | Inr x \<Rightarrow> Inr x)"

text \<open>
  \<^verbatim>\<open>keyexpr2string\<close> builds its \<^verbatim>\<open>std::string\<close> from the C string that
  \<^verbatim>\<open>z_keyexpr_to_string\<close> gives, so the result stops at the first zero byte of the key.
  \<^verbatim>\<open>extract\<close> (here \<open>extract_bytes\<close>) and \<^verbatim>\<open>pack\<close> convert between a \<^verbatim>\<open>z_bytes_t\<close> and a
  \<^verbatim>\<open>std::string\<close> with the length given; on byte strings they change nothing.
\<close>

definition keyexpr2string :: "string \<Rightarrow> string" where
  "keyexpr2string keyexpr = c_str keyexpr"

definition extract_bytes :: "z_bytes_t \<Rightarrow> string" where
  "extract_bytes b = b"

definition pack :: "string \<Rightarrow> z_bytes_t" where
  "pack od = od"

section \<open>Session and Publisher\<close>

record SessionImpl =
  start_doc :: string
  session :: z_session

definition inst :: "zenoh \<Rightarrow> call list \<times> (error + z_session)" where
  "inst z = ([Call_open], zenohc_expect (zenohc_open z))"

definition SessionImpl_ctor :: "zenoh \<Rightarrow> string \<Rightarrow> call list \<times> (error + SessionImpl)" where
  "SessionImpl_ctor z doc =
     (case inst z of
        (t, Inl e) \<Rightarrow> (t, Inl e)
      | (t, Inr s) \<Rightarrow> (t, Inr \<lparr>start_doc = doc, session = s\<rparr>))"

record PublisherImpl =
  session :: SessionImpl
  sending_topic :: string
  handle :: z_owned_publisher_t

definition PublisherImpl_ctor ::
  "zenoh \<Rightarrow> SessionImpl \<Rightarrow> string \<Rightarrow> call list \<times> (error + PublisherImpl)" where
  "PublisherImpl_ctor z session_base topic =
     (let h = z_declare_publisher z (SessionImpl.session session_base) (c_str topic);
          t = [Call_declare_publisher (SessionImpl.session session_base) (c_str topic)]
      in if \<not> z_check h then (t, Inl (runtime_error ''Cannot declare publisher''))
         else (t, Inr \<lparr>session = session_base, sending_topic = topic, handle = h\<rparr>))"

text \<open>
  \<^verbatim>\<open>operator()\<close>: the attachment of the put options is a view of the byte map, so the entry
  that is inserted after \<^verbatim>\<open>z_bytes_map_as_attachment\<close> is part of what is sent.
\<close>

definition PublisherImpl_operator ::
  "zenoh \<Rightarrow> PublisherImpl \<Rightarrow> Message \<Rightarrow> call list \<times> (error + unit)" where
  "PublisherImpl_operator z p message =
     (let map = z_bytes_map_insert_by_alias [] ''attributes'' (attributes message);
          attachment = z_bytes_map_as_attachment map;
          t = [Call_publisher_put (handle p) (payload message) attachment]
      in if z_publisher_put z (handle p) (payload message) attachment \<noteq> 0
         then (t, Inl (runtime_error ''Cannot publish''))
         else (t, Inr ()))"

section \<open>Fifo\<close>

text \<open>
  Modelled from the spec: the class \<^verbatim>\<open>Fifo\<close> of \<^verbatim>\<open>Utils.hpp\<close>, which is not among the
  sources. It is the spec's BlockingQueue: \<^verbatim>\<open>push\<close> enqueues; \<^verbatim>\<open>pull\<close> blocks until an item
  is available or the queue has been shut down and returns an item or the end-of-stream
  indicator (\<^verbatim>\<open>nullptr\<close>); after \<^verbatim>\<open>exit\<close> every \<^verbatim>\<open>pull\<close> returns the end-of-stream
  indicator without blocking. Each item goes to exactly one \<^verbatim>\<open>pull\<close>, which takes it out of
  the queue. A \<^verbatim>\<open>pull\<close> that has nothing to return and no shutdown to report is
  \<open>Blocks\<close>: the calling thread waits there.
\<close>

record 'a Fifo =
  queue :: "'a list"
  die :: bool

datatype 'a pulled = Blocks | Nullptr | Ptr 'a

definition Fifo_new :: "'a Fifo" where
  "Fifo_new = \<lparr>queue = [], die = False\<rparr>"

definition Fifo_push :: "'a Fifo \<Rightarrow> 'a \<Rightarrow> 'a Fifo" where
  "Fifo_push f x = f\<lparr>queue := queue f @ [x]\<rparr>"

definition Fifo_pull :: "'a Fifo \<Rightarrow> 'a pulled \<times> 'a Fifo" where
  "Fifo_pull f =
     (if die f then (Nullptr, f)
      else case queue f of
             [] \<Rightarrow> (Blocks, f)
           | x # xs \<Rightarrow> (Ptr x, f\<lparr>queue := xs\<rparr>))"

definition Fifo_exit :: "'a Fifo \<Rightarrow> 'a Fifo" where
  "Fifo_exit f = f\<lparr>die := True\<rparr>"

text \<open>
  How a worker's run ends: it returned (end of stream), it waits in \<^verbatim>\<open>pull\<close> on an empty
  queue, or an exception left the loop.
\<close>

datatype outcome = Returned | Waiting | Raised error

section \<open>Subscriber\<close>

record SubInfo =
  sending_topic :: string
  message :: Message

definition SubInfo_ctor :: "z_sample_t \<Rightarrow> SubInfo" where
  "SubInfo_ctor sample =
     \<lparr>sending_topic = sample_keyexpr sample,
      message = \<lparr>payload = sample_payload sample,
                 attributes = z_attachment_get (sample_attachment sample) ''attributes''\<rparr>\<rparr>"

text \<open>
  A user callback is code of the application: it may raise. A \<^verbatim>\<open>SubscriberServerCallback\<close>
  returns nothing, so its model returns the exception it raised, if any.
\<close>

record SubscriberImpl =
  session :: SessionImpl
  handle :: nat
  listening_topic :: string
  fifo :: "SubInfo Fifo"
  pool :: nat
  callback :: "string \<Rightarrow> string \<Rightarrow> Message \<Rightarrow> error option"

definition SubscriberImpl_handler :: "SubscriberImpl \<Rightarrow> z_sample_t \<Rightarrow> SubscriberImpl" where
  "SubscriberImpl_handler s sample =
     s\<lparr>SubscriberImpl.fifo := Fifo_push (SubscriberImpl.fifo s) (SubInfo_ctor sample)\<rparr>"

function SubscriberImpl_worker :: "SubscriberImpl \<Rightarrow> call list \<times> outcome \<times> SubscriberImpl" where
  "SubscriberImpl_worker s =
     (case Fifo_pull (SubscriberImpl.fifo s) of
        (Blocks, f) \<Rightarrow> ([], Waiting, s\<lparr>SubscriberImpl.fifo := f\<rparr>)
      | (Nullptr, f) \<Rightarrow> ([], Returned, s\<lparr>SubscriberImpl.fifo := f\<rparr>)
      | (Ptr ptr, f) \<Rightarrow>
          (let c = Call_subscriber_callback (SubInfo.sending_topic ptr) (listening_topic s)
                     (SubInfo.message ptr)
           in case SubscriberImpl.callback s (SubInfo.sending_topic ptr) (listening_topic s)
                     (SubInfo.message ptr) of
                Some e \<Rightarrow> ([c], Raised e, s\<lparr>SubscriberImpl.fifo := f\<rparr>)
              | None \<Rightarrow>
                  (case SubscriberImpl_worker (s\<lparr>SubscriberImpl.fifo := f\<rparr>) of
                     (t, r) \<Rightarrow> (c # t, r))))"
  by pat_completeness auto
termination
  by (relation "measure (\<lambda>s. length (queue (SubscriberImpl.fifo s)))")
     (auto simp: Fifo_pull_def split: if_splits list.splits)

declare SubscriberImpl_worker.simps [simp del]

definition SubscriberImpl_ctor ::
  "zenoh \<Rightarrow> SessionImpl \<Rightarrow> string \<Rightarrow> (string \<Rightarrow> string \<Rightarrow> Message \<Rightarrow> error option) \<Rightarrow> nat
     \<Rightarrow> call list \<times> (error + SubscriberImpl)" where
  "SubscriberImpl_ctor z session_base topic cb thread_count =
     (let t = [Call_declare_subscriber (SessionImpl.session session_base) topic]
      in case zenohc_expect (declare_subscriber z (SessionImpl.session session_base) topic) of
           Inl e \<Rightarrow> (t, Inl e)
         | Inr h \<Rightarrow>
             (t @ [ThreadPool_start thread_count],
              Inr \<lparr>session = session_base, handle = h, listening_topic = topic,
                   fifo = Fifo_new, pool = thread_count, callback = cb\<rparr>))"

definition SubscriberImpl_dtor :: "SubscriberImpl \<Rightarrow> SubscriberImpl" where
  "SubscriberImpl_dtor s = s\<lparr>SubscriberImpl.fifo := Fifo_exit (SubscriberImpl.fifo s)\<rparr>"

section \<open>RpcClient\<close>

text \<open>
  The reply channel holds the replies it will still yield, in order, before it closes.
  \<^verbatim>\<open>z_call(channel.recv, &reply)\<close> blocks until it has the next reply, or the null reply
  (\<open>None\<close>) once the channel is closed.
\<close>

record RpcClientImpl =
  session :: SessionImpl
  channel :: "z_owned_reply_t list"

definition channel_recv ::
  "z_owned_reply_t list \<Rightarrow> z_owned_reply_t option \<times> z_owned_reply_t list" where
  "channel_recv ch = (case ch of [] \<Rightarrow> (None, []) | r # rs \<Rightarrow> (Some r, rs))"

text \<open>
  \<^verbatim>\<open>operator()\<close>: the body of the \<^verbatim>\<open>for\<close> loop leaves the loop on each of its two paths
  (\<^verbatim>\<open>break\<close>, \<^verbatim>\<open>throw\<close>), so the loop reads the channel once and its increment is never
  reached. \<open>results\<close> starts as the default-constructed tuple.
\<close>

definition RpcClientImpl_operator ::
  "RpcClientImpl \<Rightarrow> (error + string \<times> Message) \<times> RpcClientImpl" where
  "RpcClientImpl_operator c =
     (let results = ('''', \<lparr>payload = '''', attributes = ''''\<rparr>);
          (reply, ch) = channel_recv (channel c);
          c' = c\<lparr>channel := ch\<rparr>
      in case reply of
           None \<Rightarrow> (Inr results, c')
         | Some (reply_ok sample) \<Rightarrow>
             (Inr (keyexpr2string (sample_keyexpr sample),
                   \<lparr>payload = extract_bytes (sample_payload sample),
                    attributes =
                      extract_bytes (z_attachment_get (sample_attachment sample) ''attributes'')\<rparr>),
              c')
         | Some (reply_err v) \<Rightarrow> (Inl (runtime_error ''RPC client timed out.''), c'))"

section \<open>RpcServer\<close>

record RpcInfo =
  keyexpr :: string
  message :: Message
  owned_query :: z_owned_query_t

text \<open>
  \<^verbatim>\<open>z_query_clone\<close> gives an owned handle on the query it is given; the handle is named by
  the query it retains.
\<close>

definition z_query_clone :: "z_query_t \<Rightarrow> z_owned_query_t" where
  "z_query_clone query = query_id query"

definition RpcInfo_ctor :: "z_query_t \<Rightarrow> call list \<times> (error + RpcInfo)" where
  "RpcInfo_ctor query =
     (let k = keyexpr2string (query_keyexpr query);
          p = extract_bytes (query_value query);
          attachment = query_attachment query
      in if \<not> z_check attachment then ([], Inl (runtime_error ''attachment is missing''))
         else ([Call_query_clone (query_id query)],
               Inr \<lparr>keyexpr = k,
                    message = \<lparr>payload = p,
                               attributes =
                                 extract_bytes (z_attachment_get attachment ''attributes'')\<rparr>,
                    owned_query = z_query_clone query\<rparr>))"

definition RpcInfo_dtor :: "RpcInfo \<Rightarrow> call list" where
  "RpcInfo_dtor info = [Call_query_drop (owned_query info)]"

text \<open>
  An \<^verbatim>\<open>RpcServerCallback\<close> returns an optional Message, or raises.
\<close>

record RpcServerImpl =
  session :: SessionImpl
  qable :: z_owned_queryable_t
  fifo :: "RpcInfo Fifo"
  pool :: nat
  callback :: "string \<Rightarrow> Message \<Rightarrow> error + Message option"

text \<open>
  \<^verbatim>\<open>handler\<close> runs on zenoh's thread. \<^verbatim>\<open>make_shared<RpcInfo>(query)\<close> is evaluated before
  \<^verbatim>\<open>push\<close> is called; when the constructor throws, the exception leaves \<^verbatim>\<open>handler\<close> and
  the server is as it was.
\<close>

definition RpcServerImpl_handler ::
  "RpcServerImpl \<Rightarrow> z_query_t \<Rightarrow> call list \<times> error option \<times> RpcServerImpl" where
  "RpcServerImpl_handler s query =
     (case RpcInfo_ctor query of
        (t, Inl e) \<Rightarrow> (t, Some e, s)
      | (t, Inr info) \<Rightarrow>
          (t, None, s\<lparr>RpcServerImpl.fifo := Fifo_push (RpcServerImpl.fifo s) info\<rparr>))"

text \<open>
  \<^verbatim>\<open>_handler\<close> (here \<open>RpcServerImpl_static_handler\<close>) is the C function that the constructor
  puts into the closure of \<^verbatim>\<open>z_declare_queryable\<close>: zenoh's thread calls it for each query.
  It calls \<^verbatim>\<open>handler\<close> with no \<^verbatim>\<open>try\<close> block around the call, so its result is that of
  \<^verbatim>\<open>handler\<close>: \<open>Some e\<close> is the exception \<open>e\<close> leaving the callback into its caller, the
  thread of zenoh.
\<close>

definition RpcServerImpl_static_handler ::
  "RpcServerImpl \<Rightarrow> z_query_t \<Rightarrow> call list \<times> error option \<times> RpcServerImpl" where
  "RpcServerImpl_static_handler context query = RpcServerImpl_handler context query"

text \<open>
  One turn of the loop of \<^verbatim>\<open>worker\<close> on the event \<open>ptr\<close> it pulled. \<open>ptr\<close> is the only
  owner of the \<^verbatim>\<open>RpcInfo\<close> (the queue gave it away), so the \<^verbatim>\<open>RpcInfo\<close> is destroyed when
  \<open>ptr\<close> goes out of scope: at the end of the turn, or when an exception of the callback
  unwinds it. The return code of \<^verbatim>\<open>z_query_reply\<close> is not read.
\<close>

definition RpcServerImpl_worker_body ::
  "zenoh \<Rightarrow> RpcServerImpl \<Rightarrow> RpcInfo \<Rightarrow> call list \<times> error option" where
  "RpcServerImpl_worker_body z s ptr =
     (let c = Call_rpc_callback (RpcInfo.keyexpr ptr) (RpcInfo.message ptr)
      in case RpcServerImpl.callback s (RpcInfo.keyexpr ptr) (RpcInfo.message ptr) of
           Inl e \<Rightarrow> (c # RpcInfo_dtor ptr, Some e)
         | Inr results \<Rightarrow>
             (case results of
                Some m \<Rightarrow>
                  (let map = z_bytes_map_insert_by_alias [] ''attributes'' (pack (attributes m));
                       attachment = z_bytes_map_as_attachment map;
                       rc = z_query_reply z (owned_query ptr) (c_str (RpcInfo.keyexpr ptr))
                              (payload m) attachment
                   in ([c, Call_query_reply (owned_query ptr) (c_str (RpcInfo.keyexpr ptr))
                             (payload m) attachment] @ RpcInfo_dtor ptr,
                       None))
              | None \<Rightarrow> ([c, Cout [Str ''no results to send'']] @ RpcInfo_dtor ptr, None)))"

function RpcServerImpl_worker ::
  "zenoh \<Rightarrow> RpcServerImpl \<Rightarrow> call list \<times> outcome \<times> RpcServerImpl" where
  "RpcServerImpl_worker z s =
     (case Fifo_pull (RpcServerImpl.fifo s) of
        (Blocks, f) \<Rightarrow> ([], Waiting, s\<lparr>RpcServerImpl.fifo := f\<rparr>)
      | (Nullptr, f) \<Rightarrow> ([], Returned, s\<lparr>RpcServerImpl.fifo := f\<rparr>)
      | (Ptr ptr, f) \<Rightarrow>
          (case RpcServerImpl_worker_body z s ptr of
             (t, Some e) \<Rightarrow> (t, Raised e, s\<lparr>RpcServerImpl.fifo := f\<rparr>)
           | (t, None) \<Rightarrow>
               (case RpcServerImpl_worker z (s\<lparr>RpcServerImpl.fifo := f\<rparr>) of
                  (t', r) \<Rightarrow> (t @ t', r))))"
  by pat_completeness auto
termination
  by (relation "measure (\<lambda>(z, s). length (queue (RpcServerImpl.fifo s)))")
     (auto simp: Fifo_pull_def split: if_splits list.splits)

declare RpcServerImpl_worker.simps [simp del]

definition RpcServerImpl_ctor ::
  "zenoh \<Rightarrow> SessionImpl \<Rightarrow> string \<Rightarrow> (string \<Rightarrow> Message \<Rightarrow> error + Message option) \<Rightarrow> nat
     \<Rightarrow> call list \<times> (error + RpcServerImpl)" where
  "RpcServerImpl_ctor z session_base k cb thread_count =
     (let out = Cout [Str ''registering RPC callback for '', Str k, Str '' thread_count='',
                      Num thread_count];
          q = z_declare_queryable z (SessionImpl.session session_base) (c_str k);
          t = [out, Call_declare_queryable (SessionImpl.session session_base) (c_str k)]
      in if \<not> z_check q then (t, Inl (runtime_error ''Unable to create queryable.''))
         else (t @ [ThreadPool_start thread_count],
               Inr \<lparr>session = session_base, qable = q, fifo = Fifo_new, pool = thread_count,
                    callback = cb\<rparr>))"

definition RpcServerImpl_dtor :: "RpcServerImpl \<Rightarrow> call list \<times> RpcServerImpl" where
  "RpcServerImpl_dtor s =
     ([Call_undeclare_queryable (qable s)],
      s\<lparr>RpcServerImpl.fifo := Fifo_exit (RpcServerImpl.fifo s)\<rparr>)"

section \<open>Reading a list of calls\<close>

fun is_query_drop :: "call \<Rightarrow> bool" where
  "is_query_drop (Call_query_drop h) = True"
| "is_query_drop _ = False"

fun is_query_reply :: "call \<Rightarrow> bool" where
  "is_query_reply (Call_query_reply h k p a) = True"
| "is_query_reply _ = False"

text \<open>
  The replies the specification asks for on one event, in its words: \<^verbatim>\<open>replyToQuery\<close> exactly
  once, on the owned query of the event, with the payload and the attributes the callback
  returned, when the callback returned a Message; none otherwise.
\<close>

definition replies_due :: "RpcServerImpl \<Rightarrow> RpcInfo \<Rightarrow> call list" where
  "replies_due s ptr =
     (case RpcServerImpl.callback s (RpcInfo.keyexpr ptr) (RpcInfo.message ptr) of
        Inr (Some m) \<Rightarrow>
          [Call_query_reply (owned_query ptr) (c_str (RpcInfo.keyexpr ptr)) (payload m)
             (Some [(''attributes'', attributes m)])]
      | _ \<Rightarrow> [])"

section \<open>The worker loops, one turn at a time\<close>

text \<open>
  The three ways a turn of \<^verbatim>\<open>worker\<close> can go, by what \<^verbatim>\<open>pull\<close> finds: the queue shut
  down, the queue empty, an event at its head.
\<close>

lemma SubscriberImpl_worker_die:
  "die (SubscriberImpl.fifo s) \<Longrightarrow> SubscriberImpl_worker s = ([], Returned, s)"
  by (subst SubscriberImpl_worker.simps) (simp add: Fifo_pull_def)

lemma SubscriberImpl_worker_empty:
  "\<not> die (SubscriberImpl.fifo s) \<Longrightarrow> queue (SubscriberImpl.fifo s) = [] \<Longrightarrow>
   SubscriberImpl_worker s = ([], Waiting, s)"
  by (subst SubscriberImpl_worker.simps) (simp add: Fifo_pull_def)

lemma SubscriberImpl_worker_ptr:
  "\<not> die (SubscriberImpl.fifo s) \<Longrightarrow> queue (SubscriberImpl.fifo s) = ptr # rest \<Longrightarrow>
   SubscriberImpl_worker s =
     (case SubscriberImpl.callback s (SubInfo.sending_topic ptr) (listening_topic s)
             (SubInfo.message ptr) of
        Some e \<Rightarrow>
          ([Call_subscriber_callback (SubInfo.sending_topic ptr) (listening_topic s)
              (SubInfo.message ptr)],
           Raised e, s\<lparr>SubscriberImpl.fifo := (SubscriberImpl.fifo s)\<lparr>queue := rest\<rparr>\<rparr>)
      | None \<Rightarrow>
          (case SubscriberImpl_worker
                  (s\<lparr>SubscriberImpl.fifo := (SubscriberImpl.fifo s)\<lparr>queue := rest\<rparr>\<rparr>) of
             (t, r) \<Rightarrow>
               (Call_subscriber_callback (SubInfo.sending_topic ptr) (listening_topic s)
                  (SubInfo.message ptr) # t, r)))"
  by (subst SubscriberImpl_worker.simps) (simp add: Fifo_pull_def Let_def)

lemma RpcServerImpl_worker_die:
  "die (RpcServerImpl.fifo s) \<Longrightarrow> RpcServerImpl_worker z s = ([], Returned, s)"
  by (subst RpcServerImpl_worker.simps) (simp add: Fifo_pull_def)

lemma RpcServerImpl_worker_empty:
  "\<not> die (RpcServerImpl.fifo s) \<Longrightarrow> queue (RpcServerImpl.fifo s) = [] \<Longrightarrow>
   RpcServerImpl_worker z s = ([], Waiting, s)"
  by (subst RpcServerImpl_worker.simps) (simp add: Fifo_pull_def)

lemma RpcServerImpl_worker_ptr:
  "\<not> die (RpcServerImpl.fifo s) \<Longrightarrow> queue (RpcServerImpl.fifo s) = ptr # rest \<Longrightarrow>
   RpcServerImpl_worker z s =
     (case RpcServerImpl_worker_body z s ptr of
        (t, Some e) \<Rightarrow>
          (t, Raised e, s\<lparr>RpcServerImpl.fifo := (RpcServerImpl.fifo s)\<lparr>queue := rest\<rparr>\<rparr>)
      | (t, None) \<Rightarrow>
          (case RpcServerImpl_worker z
                  (s\<lparr>RpcServerImpl.fifo := (RpcServerImpl.fifo s)\<lparr>queue := rest\<rparr>\<rparr>) of
             (t', r) \<Rightarrow> (t @ t', r)))"
  by (subst RpcServerImpl_worker.simps) (simp add: Fifo_pull_def)

text \<open>
  What one turn of the server's worker does with its event: it does not read the queue, it
  releases the owned query once, it replies as \<open>replies_due\<close> says, and the only exception
  that leaves it is one the callback raised.
\<close>

lemma RpcServerImpl_worker_body_fifo:
  "RpcServerImpl_worker_body z (s\<lparr>RpcServerImpl.fifo := f\<rparr>) ptr = RpcServerImpl_worker_body z s ptr"
  by (simp add: RpcServerImpl_worker_body_def)

lemma RpcServerImpl_worker_body_drops:
  "filter is_query_drop (fst (RpcServerImpl_worker_body z s ptr)) = [Call_query_drop (owned_query ptr)]"
  by (simp add: RpcServerImpl_worker_body_def RpcInfo_dtor_def Let_def
      split: sum.splits option.splits)

lemma RpcServerImpl_worker_body_replies:
  "filter is_query_reply (fst (RpcServerImpl_worker_body z s ptr)) = replies_due s ptr"
  by (simp add: RpcServerImpl_worker_body_def RpcInfo_dtor_def replies_due_def Let_def pack_def
      z_bytes_map_insert_by_alias_def z_bytes_map_as_attachment_def
      split: sum.splits option.splits)

lemma RpcServerImpl_worker_body_error:
  "snd (RpcServerImpl_worker_body z s ptr) =
     (case RpcServerImpl.callback s (RpcInfo.keyexpr ptr) (RpcInfo.message ptr) of
        Inl e \<Rightarrow> Some e | Inr r \<Rightarrow> None)"
  by (simp add: RpcServerImpl_worker_body_def Let_def split: sum.splits option.splits)

lemma RpcServerImpl_worker_body_ignores_return_code:
  "RpcServerImpl_worker_body (z\<lparr>z_query_reply := r\<rparr>) s ptr = RpcServerImpl_worker_body z s ptr"
  by (simp add: RpcServerImpl_worker_body_def Let_def split: sum.splits option.splits)

text \<open>
  A run of the server's worker takes a prefix of the queue and leaves the rest; its calls
  are those of the turns on the events it took, in order.
\<close>

lemma RpcServerImpl_worker_trace:
  "\<exists>taken rest. queue (RpcServerImpl.fifo s) = taken @ rest
     \<and> snd (snd (RpcServerImpl_worker z s)) =
         s\<lparr>RpcServerImpl.fifo := (RpcServerImpl.fifo s)\<lparr>queue := rest\<rparr>\<rparr>
     \<and> fst (RpcServerImpl_worker z s) =
         concat (map (\<lambda>p. fst (RpcServerImpl_worker_body z s p)) taken)"
proof (induction "queue (RpcServerImpl.fifo s)" arbitrary: s)
  case Nil
  have "RpcServerImpl_worker z s = ([], Returned, s) \<or> RpcServerImpl_worker z s = ([], Waiting, s)"
    using Nil RpcServerImpl_worker_die [of s z] RpcServerImpl_worker_empty [of s z] by auto
  moreover have "s\<lparr>RpcServerImpl.fifo := (RpcServerImpl.fifo s)\<lparr>queue := []\<rparr>\<rparr> = s"
    using Nil by (metis Fifo.surjective Fifo.update_convs(1) RpcServerImpl.surjective RpcServerImpl.update_convs(3))
  ultimately show ?case
    using Nil by (intro exI [of _ "[]"]) auto
next
  case (Cons p q)
  let ?s1 = "s\<lparr>RpcServerImpl.fifo := (RpcServerImpl.fifo s)\<lparr>queue := q\<rparr>\<rparr>"
  have qs: "queue (RpcServerImpl.fifo s) = p # q"
    using Cons.hyps(2) by simp
  show ?case
  proof (cases "die (RpcServerImpl.fifo s)")
    case True
    then have "RpcServerImpl_worker z s = ([], Returned, s)"
      by (rule RpcServerImpl_worker_die)
    moreover have "s\<lparr>RpcServerImpl.fifo := (RpcServerImpl.fifo s)\<lparr>queue := p # q\<rparr>\<rparr> = s"
      using qs by (metis Fifo.surjective Fifo.update_convs(1) RpcServerImpl.surjective RpcServerImpl.update_convs(3))
    ultimately show ?thesis
      using qs by (intro exI [of _ "[]"] exI [of _ "p # q"]) simp
  next
    case False
    note unfold = RpcServerImpl_worker_ptr [OF False qs, of z]
    obtain t eo where body: "RpcServerImpl_worker_body z s p = (t, eo)"
      by (cases "RpcServerImpl_worker_body z s p") auto
    show ?thesis
    proof (cases eo)
      case (Some e)
      then have "RpcServerImpl_worker z s = (t, Raised e, ?s1)"
        using unfold body by simp
      then show ?thesis
        using qs body by (intro exI [of _ "[p]"] exI [of _ q]) simp
    next
      case None
      have "q = queue (RpcServerImpl.fifo ?s1)"
        by simp
      from Cons.hyps(1) [OF this] obtain taken rest where
        d: "queue (RpcServerImpl.fifo ?s1) = taken @ rest"
          "snd (snd (RpcServerImpl_worker z ?s1)) =
             ?s1\<lparr>RpcServerImpl.fifo := (RpcServerImpl.fifo ?s1)\<lparr>queue := rest\<rparr>\<rparr>"
          "fst (RpcServerImpl_worker z ?s1) =
             concat (map (\<lambda>p. fst (RpcServerImpl_worker_body z ?s1 p)) taken)"
        by blast
      have w: "RpcServerImpl_worker z s =
                 (t @ fst (RpcServerImpl_worker z ?s1), snd (RpcServerImpl_worker z ?s1))"
        using unfold body None by (simp add: case_prod_beta)
      show ?thesis
        using d w qs body
        by (intro exI [of _ "p # taken"] exI [of _ rest])
           (simp add: RpcServerImpl_worker_body_fifo)
    qed
  qed
qed

lemma RpcServerImpl_worker_raises_only_callback:
  "fst (snd (RpcServerImpl_worker z s)) = Raised e \<Longrightarrow>
   \<exists>p \<in> set (queue (RpcServerImpl.fifo s)).
     RpcServerImpl.callback s (RpcInfo.keyexpr p) (RpcInfo.message p) = Inl e"
proof (induction "queue (RpcServerImpl.fifo s)" arbitrary: s)
  case Nil
  have "RpcServerImpl_worker z s = ([], Returned, s) \<or> RpcServerImpl_worker z s = ([], Waiting, s)"
    using Nil.hyps RpcServerImpl_worker_die [of s z] RpcServerImpl_worker_empty [of s z] by auto
  then show ?case
    using Nil.prems by auto
next
  case (Cons p q)
  let ?s1 = "s\<lparr>RpcServerImpl.fifo := (RpcServerImpl.fifo s)\<lparr>queue := q\<rparr>\<rparr>"
  have qs: "queue (RpcServerImpl.fifo s) = p # q"
    using Cons.hyps(2) by simp
  show ?case
  proof (cases "die (RpcServerImpl.fifo s)")
    case True
    then show ?thesis
      using Cons.prems by (simp add: RpcServerImpl_worker_die)
  next
    case False
    note unfold = RpcServerImpl_worker_ptr [OF False qs, of z]
    show ?thesis
    proof (cases "RpcServerImpl.callback s (RpcInfo.keyexpr p) (RpcInfo.message p)")
      case (Inl e')
      then have "snd (RpcServerImpl_worker_body z s p) = Some e'"
        by (simp add: RpcServerImpl_worker_body_error)
      then have "fst (snd (RpcServerImpl_worker z s)) = Raised e'"
        using unfold by (cases "RpcServerImpl_worker_body z s p") simp
      then show ?thesis
        using Cons.prems Inl qs by simp
    next
      case (Inr r)
      then have "snd (RpcServerImpl_worker_body z s p) = None"
        by (simp add: RpcServerImpl_worker_body_error)
      then have "fst (snd (RpcServerImpl_worker z s)) = fst (snd (RpcServerImpl_worker z ?s1))"
        using unfold by (cases "RpcServerImpl_worker_body z s p") (simp add: case_prod_beta)
      moreover have "q = queue (RpcServerImpl.fifo ?s1)"
        by simp
      ultimately have "\<exists>p \<in> set (queue (RpcServerImpl.fifo ?s1)).
          RpcServerImpl.callback ?s1 (RpcInfo.keyexpr p) (RpcInfo.message p) = Inl e"
        using Cons.hyps(1) [of ?s1] Cons.prems by simp
      then show ?thesis
        using qs by auto
    qed
  qed
qed

section \<open>Publisher: sending\<close>

text \<open>
  Claim C6. \<^verbatim>\<open>PublisherImpl::operator()\<close> calls \<^verbatim>\<open>z_publisher_put\<close> once before it returns,
  with the payload of the message and an attachment that holds its attributes under the key
  \<^verbatim>\<open>attributes\<close>. When zenoh answers with a non-zero code the call raises
  \<^verbatim>\<open>runtime_error("Cannot publish")\<close>; when the code is zero it returns normally.
\<close>

theorem PublisherImpl_operator_surfaces_rejection:
  "fst (PublisherImpl_operator z p m) =
     [Call_publisher_put (PublisherImpl.handle p) (payload m) (Some [(''attributes'', attributes m)])]
   \<and> (z_publisher_put z (PublisherImpl.handle p) (payload m) (Some [(''attributes'', attributes m)]) \<noteq> 0
        \<longrightarrow> snd (PublisherImpl_operator z p m) = Inl (runtime_error ''Cannot publish''))
   \<and> (z_publisher_put z (PublisherImpl.handle p) (payload m) (Some [(''attributes'', attributes m)]) = 0
        \<longrightarrow> snd (PublisherImpl_operator z p m) = Inr ())"
  by (simp add: PublisherImpl_operator_def Let_def z_bytes_map_insert_by_alias_def
      z_bytes_map_as_attachment_def)

theorem PublisherImpl_operator_surfaces_rejection_witness:
  "snd (PublisherImpl_operator
          \<lparr>zenohc_open = Inr 0, z_declare_publisher = (\<lambda>_ _. Some 1),
           z_publisher_put = (\<lambda>_ _ _. - 1), declare_subscriber = (\<lambda>_ _. Inr 2),
           z_declare_queryable = (\<lambda>_ _. Some 3), z_query_reply = (\<lambda>_ _ _ _. 0)\<rparr>
          \<lparr>PublisherImpl.session = \<lparr>start_doc = '''', SessionImpl.session = 0\<rparr>,
           PublisherImpl.sending_topic = ''a/b'', PublisherImpl.handle = Some 1\<rparr>
          \<lparr>payload = ''x'', attributes = ''m''\<rparr>) = Inl (runtime_error ''Cannot publish'')
   \<and> fst (PublisherImpl_operator
          \<lparr>zenohc_open = Inr 0, z_declare_publisher = (\<lambda>_ _. Some 1),
           z_publisher_put = (\<lambda>_ _ _. - 1), declare_subscriber = (\<lambda>_ _. Inr 2),
           z_declare_queryable = (\<lambda>_ _. Some 3), z_query_reply = (\<lambda>_ _ _ _. 0)\<rparr>
          \<lparr>PublisherImpl.session = \<lparr>start_doc = '''', SessionImpl.session = 0\<rparr>,
           PublisherImpl.sending_topic = ''a/b'', PublisherImpl.handle = Some 1\<rparr>
          \<lparr>payload = ''x'', attributes = ''m''\<rparr>) =
       [Call_publisher_put (Some 1) ''x'' (Some [(''attributes'', ''m'')])]"
  using PublisherImpl_operator_surfaces_rejection
    [of "\<lparr>zenohc_open = Inr 0, z_declare_publisher = (\<lambda>_ _. Some 1),
           z_publisher_put = (\<lambda>_ _ _. - 1), declare_subscriber = (\<lambda>_ _. Inr 2),
           z_declare_queryable = (\<lambda>_ _. Some 3), z_query_reply = (\<lambda>_ _ _ _. 0)\<rparr>"
        "\<lparr>PublisherImpl.session = \<lparr>start_doc = '''', SessionImpl.session = 0\<rparr>,
           PublisherImpl.sending_topic = ''a/b'', PublisherImpl.handle = Some 1\<rparr>"
        "\<lparr>payload = ''x'', attributes = ''m''\<rparr>"]
  by simp

section \<open>Construction\<close>

text \<open>
  Claim C7. When zenoh rejects a construction (the session does not open, the publisher or
  the queryable handle fails \<^verbatim>\<open>z_check\<close>, the subscriber declaration is an error), the
  constructor raises: there is no object, zenoh was asked once and not again, and no
  thread pool was started.
\<close>

theorem construction_failure_is_fatal:
  "(zenohc_open z = Inl msg \<longrightarrow>
      SessionImpl_ctor z doc = ([Call_open], Inl (ErrorMessage msg)))
   \<and> (\<not> z_check (z_declare_publisher z (SessionImpl.session sb) (c_str topic)) \<longrightarrow>
      PublisherImpl_ctor z sb topic =
        ([Call_declare_publisher (SessionImpl.session sb) (c_str topic)],
         Inl (runtime_error ''Cannot declare publisher'')))
   \<and> (\<not> z_check (z_declare_queryable z (SessionImpl.session sb) (c_str topic)) \<longrightarrow>
      RpcServerImpl_ctor z sb topic cb n =
        ([Cout [Str ''registering RPC callback for '', Str topic, Str '' thread_count='', Num n],
          Call_declare_queryable (SessionImpl.session sb) (c_str topic)],
         Inl (runtime_error ''Unable to create queryable.'')))
   \<and> (declare_subscriber z (SessionImpl.session sb) topic = Inl msg' \<longrightarrow>
      SubscriberImpl_ctor z sb topic scb n =
        ([Call_declare_subscriber (SessionImpl.session sb) topic], Inl (ErrorMessage msg')))"
  by (simp add: SessionImpl_ctor_def inst_def zenohc_expect_def PublisherImpl_ctor_def
      RpcServerImpl_ctor_def SubscriberImpl_ctor_def Let_def)

theorem construction_failure_is_fatal_witness:
  "SessionImpl_ctor
     \<lparr>zenohc_open = Inl ''unreachable'', z_declare_publisher = (\<lambda>_ _. None),
      z_publisher_put = (\<lambda>_ _ _. 0), declare_subscriber = (\<lambda>_ _. Inl ''bad key''),
      z_declare_queryable = (\<lambda>_ _. None), z_query_reply = (\<lambda>_ _ _ _. 0)\<rparr> ''doc''
     = ([Call_open], Inl (ErrorMessage ''unreachable''))
   \<and> PublisherImpl_ctor
     \<lparr>zenohc_open = Inl ''unreachable'', z_declare_publisher = (\<lambda>_ _. None),
      z_publisher_put = (\<lambda>_ _ _. 0), declare_subscriber = (\<lambda>_ _. Inl ''bad key''),
      z_declare_queryable = (\<lambda>_ _. None), z_query_reply = (\<lambda>_ _ _ _. 0)\<rparr>
     \<lparr>start_doc = ''doc'', SessionImpl.session = 0\<rparr> ''a/b''
     = ([Call_declare_publisher 0 ''a/b''], Inl (runtime_error ''Cannot declare publisher''))
   \<and> RpcServerImpl_ctor
     \<lparr>zenohc_open = Inl ''unreachable'', z_declare_publisher = (\<lambda>_ _. None),
      z_publisher_put = (\<lambda>_ _ _. 0), declare_subscriber = (\<lambda>_ _. Inl ''bad key''),
      z_declare_queryable = (\<lambda>_ _. None), z_query_reply = (\<lambda>_ _ _ _. 0)\<rparr>
     \<lparr>start_doc = ''doc'', SessionImpl.session = 0\<rparr> ''a/b'' (\<lambda>_ _. Inr None) 4
     = ([Cout [Str ''registering RPC callback for '', Str ''a/b'', Str '' thread_count='', Num 4],
         Call_declare_queryable 0 ''a/b''],
        Inl (runtime_error ''Unable to create queryable.''))
   \<and> SubscriberImpl_ctor
     \<lparr>zenohc_open = Inl ''unreachable'', z_declare_publisher = (\<lambda>_ _. None),
      z_publisher_put = (\<lambda>_ _ _. 0), declare_subscriber = (\<lambda>_ _. Inl ''bad key''),
      z_declare_queryable = (\<lambda>_ _. None), z_query_reply = (\<lambda>_ _ _ _. 0)\<rparr>
     \<lparr>start_doc = ''doc'', SessionImpl.session = 0\<rparr> ''a/b'' (\<lambda>_ _ _. None) 4
     = ([Call_declare_subscriber 0 ''a/b''], Inl (ErrorMessage ''bad key''))"
  using construction_failure_is_fatal
    [where z = "\<lparr>zenohc_open = Inl ''unreachable'', z_declare_publisher = (\<lambda>_ _. None),
      z_publisher_put = (\<lambda>_ _ _. 0), declare_subscriber = (\<lambda>_ _. Inl ''bad key''),
      z_declare_queryable = (\<lambda>_ _. None), z_query_reply = (\<lambda>_ _ _ _. 0)\<rparr>"
      and msg = "''unreachable''" and doc = "''doc''"
      and sb = "\<lparr>start_doc = ''doc'', SessionImpl.session = 0\<rparr>" and topic = "''a/b''"
      and cb = "\<lambda>_ _. Inr None" and n = 4 and msg' = "''bad key''"
      and scb = "\<lambda>_ _ _. None"]
  by (simp add: z_check_def c_str_def)

section \<open>Subscriber worker\<close>

text \<open>
  Claim C8. In a turn of \<^verbatim>\<open>SubscriberImpl::worker\<close>: when \<^verbatim>\<open>pull\<close> gives the end-of-stream
  indicator the worker returns, having called nothing; when it gives an event, the next call
  is the user callback on the sending topic of the event, the listening topic of the
  subscriber and the message of the event, and the loop goes on from the rest of the queue
  unless the callback raised.
\<close>

theorem SubscriberImpl_worker_iteration:
  "(fst (Fifo_pull (SubscriberImpl.fifo s)) = Nullptr \<longrightarrow>
      SubscriberImpl_worker s = ([], Returned, s))
   \<and> (\<forall>ptr. fst (Fifo_pull (SubscriberImpl.fifo s)) = Ptr ptr \<longrightarrow>
      fst (SubscriberImpl_worker s) =
        Call_subscriber_callback (SubInfo.sending_topic ptr) (listening_topic s) (SubInfo.message ptr)
        # (case SubscriberImpl.callback s (SubInfo.sending_topic ptr) (listening_topic s)
                  (SubInfo.message ptr) of
             Some e \<Rightarrow> []
           | None \<Rightarrow> fst (SubscriberImpl_worker
                           (s\<lparr>SubscriberImpl.fifo := snd (Fifo_pull (SubscriberImpl.fifo s))\<rparr>))))"
  by (subst (1 2) SubscriberImpl_worker.simps)
     (auto simp: Fifo_pull_def Let_def split: if_splits list.splits option.splits prod.splits)

theorem SubscriberImpl_worker_iteration_witness:
  "SubscriberImpl_worker
     \<lparr>SubscriberImpl.session = \<lparr>start_doc = '''', SessionImpl.session = 0\<rparr>,
      SubscriberImpl.handle = 2, listening_topic = ''a/*'',
      SubscriberImpl.fifo =
        \<lparr>queue = [\<lparr>SubInfo.sending_topic = ''a/b'',
                    SubInfo.message = \<lparr>payload = ''x'', attributes = ''m''\<rparr>\<rparr>],
         die = True\<rparr>,
      SubscriberImpl.pool = 4, SubscriberImpl.callback = (\<lambda>_ _ _. None)\<rparr>
   = ([], Returned,
     \<lparr>SubscriberImpl.session = \<lparr>start_doc = '''', SessionImpl.session = 0\<rparr>,
      SubscriberImpl.handle = 2, listening_topic = ''a/*'',
      SubscriberImpl.fifo =
        \<lparr>queue = [\<lparr>SubInfo.sending_topic = ''a/b'',
                    SubInfo.message = \<lparr>payload = ''x'', attributes = ''m''\<rparr>\<rparr>],
         die = True\<rparr>,
      SubscriberImpl.pool = 4, SubscriberImpl.callback = (\<lambda>_ _ _. None)\<rparr>)
   \<and> fst (SubscriberImpl_worker
     \<lparr>SubscriberImpl.session = \<lparr>start_doc = '''', SessionImpl.session = 0\<rparr>,
      SubscriberImpl.handle = 2, listening_topic = ''a/*'',
      SubscriberImpl.fifo =
        \<lparr>queue = [\<lparr>SubInfo.sending_topic = ''a/b'',
                    SubInfo.message = \<lparr>payload = ''x'', attributes = ''m''\<rparr>\<rparr>],
         die = False\<rparr>,
      SubscriberImpl.pool = 4, SubscriberImpl.callback = (\<lambda>_ _ _. Some (runtime_error ''boom''))\<rparr>)
   = [Call_subscriber_callback ''a/b'' ''a/*'' \<lparr>payload = ''x'', attributes = ''m''\<rparr>]"
proof -
  let ?p = "\<lparr>SubInfo.sending_topic = ''a/b'',
             SubInfo.message = \<lparr>payload = ''x'', attributes = ''m''\<rparr>\<rparr>"
  let ?s1 = "\<lparr>SubscriberImpl.session = \<lparr>start_doc = '''', SessionImpl.session = 0\<rparr>,
      SubscriberImpl.handle = 2, listening_topic = ''a/*'',
      SubscriberImpl.fifo = \<lparr>queue = [?p], die = True\<rparr>,
      SubscriberImpl.pool = 4, SubscriberImpl.callback = (\<lambda>_ _ _. None)\<rparr>"
  let ?s2 = "\<lparr>SubscriberImpl.session = \<lparr>start_doc = '''', SessionImpl.session = 0\<rparr>,
      SubscriberImpl.handle = 2, listening_topic = ''a/*'',
      SubscriberImpl.fifo = \<lparr>queue = [?p], die = False\<rparr>,
      SubscriberImpl.pool = 4, SubscriberImpl.callback = (\<lambda>_ _ _. Some (runtime_error ''boom''))\<rparr>"
  have "SubscriberImpl_worker ?s1 = ([], Returned, ?s1)"
    using SubscriberImpl_worker_iteration [of ?s1] by (simp add: Fifo_pull_def)
  moreover have "fst (SubscriberImpl_worker ?s2) =
      [Call_subscriber_callback ''a/b'' ''a/*'' \<lparr>payload = ''x'', attributes = ''m''\<rparr>]"
    using SubscriberImpl_worker_iteration [of ?s2] by (simp add: Fifo_pull_def)
  ultimately show ?thesis
    by simp
qed

text \<open>
  Claim C10. Nothing in the loop catches an exception of the callback. When the callback
  raises on an event, after any number of events it handled, the exception leaves
  \<^verbatim>\<open>worker\<close>: the callback was called on the events up to that one and on no later one, and
  the later events are still in the queue.
\<close>

theorem SubscriberImpl_worker_callback_raises:
  assumes "\<not> die (SubscriberImpl.fifo s)"
    and "queue (SubscriberImpl.fifo s) = pre @ ptr # rest"
    and "\<forall>p \<in> set pre. SubscriberImpl.callback s (SubInfo.sending_topic p) (listening_topic s)
                          (SubInfo.message p) = None"
    and "SubscriberImpl.callback s (SubInfo.sending_topic ptr) (listening_topic s)
           (SubInfo.message ptr) = Some e"
  shows "SubscriberImpl_worker s =
     (map (\<lambda>p. Call_subscriber_callback (SubInfo.sending_topic p) (listening_topic s)
                 (SubInfo.message p)) (pre @ [ptr]),
      Raised e,
      s\<lparr>SubscriberImpl.fifo := (SubscriberImpl.fifo s)\<lparr>queue := rest\<rparr>\<rparr>)"
  using assms
proof (induction pre arbitrary: s)
  case Nil
  then show ?case
    by (simp add: SubscriberImpl_worker_ptr [of s ptr rest])
next
  case (Cons p pre)
  let ?s1 = "s\<lparr>SubscriberImpl.fifo := (SubscriberImpl.fifo s)\<lparr>queue := pre @ ptr # rest\<rparr>\<rparr>"
  have "SubscriberImpl_worker ?s1 =
     (map (\<lambda>p. Call_subscriber_callback (SubInfo.sending_topic p) (listening_topic ?s1)
                 (SubInfo.message p)) (pre @ [ptr]),
      Raised e,
      ?s1\<lparr>SubscriberImpl.fifo := (SubscriberImpl.fifo ?s1)\<lparr>queue := rest\<rparr>\<rparr>)"
    using Cons.prems by (intro Cons.IH) simp_all
  then show ?case
    using Cons.prems by (simp add: SubscriberImpl_worker_ptr [of s p "pre @ ptr # rest"])
qed

theorem SubscriberImpl_worker_callback_raises_witness:
  "SubscriberImpl_worker
     \<lparr>SubscriberImpl.session = \<lparr>start_doc = '''', SessionImpl.session = 0\<rparr>,
      SubscriberImpl.handle = 2, listening_topic = ''a/*'',
      SubscriberImpl.fifo =
        \<lparr>queue = [\<lparr>SubInfo.sending_topic = ''a/b'',
                    SubInfo.message = \<lparr>payload = ''x'', attributes = ''m''\<rparr>\<rparr>,
                   \<lparr>SubInfo.sending_topic = ''a/c'',
                    SubInfo.message = \<lparr>payload = '''', attributes = ''m''\<rparr>\<rparr>,
                   \<lparr>SubInfo.sending_topic = ''a/d'',
                    SubInfo.message = \<lparr>payload = ''y'', attributes = ''m''\<rparr>\<rparr>],
         die = False\<rparr>,
      SubscriberImpl.pool = 4,
      SubscriberImpl.callback =
        (\<lambda>_ _ m. if payload m = [] then Some (runtime_error ''empty payload'') else None)\<rparr>
   = ([Call_subscriber_callback ''a/b'' ''a/*'' \<lparr>payload = ''x'', attributes = ''m''\<rparr>,
       Call_subscriber_callback ''a/c'' ''a/*'' \<lparr>payload = '''', attributes = ''m''\<rparr>],
      Raised (runtime_error ''empty payload''),
     \<lparr>SubscriberImpl.session = \<lparr>start_doc = '''', SessionImpl.session = 0\<rparr>,
      SubscriberImpl.handle = 2, listening_topic = ''a/*'',
      SubscriberImpl.fifo =
        \<lparr>queue = [\<lparr>SubInfo.sending_topic = ''a/d'',
                    SubInfo.message = \<lparr>payload = ''y'', attributes = ''m''\<rparr>\<rparr>],
         die = False\<rparr>,
      SubscriberImpl.pool = 4,
      SubscriberImpl.callback =
        (\<lambda>_ _ m. if payload m = [] then Some (runtime_error ''empty payload'') else None)\<rparr>)"
  using SubscriberImpl_worker_callback_raises
    [where s = "\<lparr>SubscriberImpl.session = \<lparr>start_doc = '''', SessionImpl.session = 0\<rparr>,
      SubscriberImpl.handle = 2, listening_topic = ''a/*'',
      SubscriberImpl.fifo =
        \<lparr>queue = [\<lparr>SubInfo.sending_topic = ''a/b'',
                    SubInfo.message = \<lparr>payload = ''x'', attributes = ''m''\<rparr>\<rparr>,
                   \<lparr>SubInfo.sending_topic = ''a/c'',
                    SubInfo.message = \<lparr>payload = '''', attributes = ''m''\<rparr>\<rparr>,
                   \<lparr>SubInfo.sending_topic = ''a/d'',
                    SubInfo.message = \<lparr>payload = ''y'', attributes = ''m''\<rparr>\<rparr>],
         die = False\<rparr>,
      SubscriberImpl.pool = 4,
      SubscriberImpl.callback =
        (\<lambda>_ _ m. if payload m = [] then Some (runtime_error ''empty payload'') else None)\<rparr>"
     and pre = "[\<lparr>SubInfo.sending_topic = ''a/b'',
                    SubInfo.message = \<lparr>payload = ''x'', attributes = ''m''\<rparr>\<rparr>]"
     and ptr = "\<lparr>SubInfo.sending_topic = ''a/c'',
                    SubInfo.message = \<lparr>payload = '''', attributes = ''m''\<rparr>\<rparr>"
     and rest = "[\<lparr>SubInfo.sending_topic = ''a/d'',
                    SubInfo.message = \<lparr>payload = ''y'', attributes = ''m''\<rparr>\<rparr>]"
     and e = "runtime_error ''empty payload''"]
  by simp

section \<open>RpcClient: the call\<close>

text \<open>
  A key with a zero byte in it is cut there by \<^verbatim>\<open>keyexpr2string\<close>; a key without one is kept
  whole.
\<close>

lemma keyexpr2string_stops_at_zero_byte:
  "keyexpr2string (''a/b'' @ [CHR 0x00] @ ''c'') = ''a/b'' \<and> keyexpr2string ''a/b'' = ''a/b''"
  by (simp add: keyexpr2string_def c_str_def)

text \<open>
  The three outcomes of \<^verbatim>\<open>RpcClientImpl::operator()\<close>, by what the channel yields first.
\<close>

lemma RpcClientImpl_operator_outcomes:
  "fst (RpcClientImpl_operator c) =
     (case channel c of
        [] \<Rightarrow> Inr ('''', \<lparr>payload = '''', attributes = ''''\<rparr>)
      | reply_ok sample # rest \<Rightarrow>
          Inr (c_str (sample_keyexpr sample),
               \<lparr>payload = sample_payload sample,
                attributes = z_attachment_get (sample_attachment sample) ''attributes''\<rparr>)
      | reply_err v # rest \<Rightarrow> Inl (runtime_error ''RPC client timed out.''))"
  by (simp add: RpcClientImpl_operator_def channel_recv_def keyexpr2string_def extract_bytes_def
      split: list.splits z_owned_reply_t.splits)

text \<open>
  Claim C9. When the reply channel closes having yielded no reply, the call returns the
  empty topic and a Message with empty payload and empty attributes, and raises nothing.
\<close>

theorem RpcClientImpl_operator_closed_channel:
  "channel c = [] \<Longrightarrow>
   RpcClientImpl_operator c = (Inr ('''', \<lparr>payload = '''', attributes = ''''\<rparr>), c)"
  by (simp add: RpcClientImpl_operator_def channel_recv_def)

theorem RpcClientImpl_operator_closed_channel_witness:
  "RpcClientImpl_operator
     \<lparr>RpcClientImpl.session = \<lparr>start_doc = ''doc'', SessionImpl.session = 5\<rparr>, channel = []\<rparr>
   = (Inr ('''', \<lparr>payload = '''', attributes = ''''\<rparr>),
      \<lparr>RpcClientImpl.session = \<lparr>start_doc = ''doc'', SessionImpl.session = 5\<rparr>, channel = []\<rparr>)"
  using RpcClientImpl_operator_closed_channel
    [of "\<lparr>RpcClientImpl.session = \<lparr>start_doc = ''doc'', SessionImpl.session = 5\<rparr>, channel = []\<rparr>"]
  by simp

text \<open>
  Claim C1 says that a call either returns a reply or fails with a timeout error. On a
  channel that closes with no reply the call does neither: nothing was received, and it
  returns the default-constructed result instead of raising the timeout error that the loop
  raises for an error reply.
\<close>

theorem RpcClientImpl_operator_no_reply_no_error:
  "RpcClientImpl_operator
     \<lparr>RpcClientImpl.session = \<lparr>start_doc = '''', SessionImpl.session = 0\<rparr>, channel = []\<rparr>
   = (Inr ('''', \<lparr>payload = '''', attributes = ''''\<rparr>),
      \<lparr>RpcClientImpl.session = \<lparr>start_doc = '''', SessionImpl.session = 0\<rparr>, channel = []\<rparr>)
   \<and> fst (RpcClientImpl_operator
     \<lparr>RpcClientImpl.session = \<lparr>start_doc = '''', SessionImpl.session = 0\<rparr>, channel = []\<rparr>)
     \<noteq> Inl (runtime_error ''RPC client timed out.'')"
  by (simp add: RpcClientImpl_operator_def channel_recv_def)

section \<open>RpcServer: handler and worker\<close>

text \<open>
  \<^verbatim>\<open>handler\<close> on a query that has its attachment clones the query and enqueues the event;
  no run of \<^verbatim>\<open>handler\<close> shuts the queue down or undeclares the queryable, which the
  destructor does.
\<close>

lemma RpcServerImpl_handler_enqueues:
  "z_check (query_attachment query) \<Longrightarrow>
   RpcServerImpl_handler s query =
     ([Call_query_clone (query_id query)], None,
      s\<lparr>RpcServerImpl.fifo :=
          Fifo_push (RpcServerImpl.fifo s)
            \<lparr>RpcInfo.keyexpr = c_str (query_keyexpr query),
             RpcInfo.message =
               \<lparr>payload = query_value query,
                attributes = z_attachment_get (query_attachment query) ''attributes''\<rparr>,
             owned_query = query_id query\<rparr>\<rparr>)"
  by (simp add: RpcServerImpl_handler_def RpcInfo_ctor_def Let_def keyexpr2string_def
      extract_bytes_def z_query_clone_def)

lemma RpcServerImpl_handler_keeps_registration:
  "die (RpcServerImpl.fifo (snd (snd (RpcServerImpl_handler s query)))) = die (RpcServerImpl.fifo s)
   \<and> qable (snd (snd (RpcServerImpl_handler s query))) = qable s
   \<and> (\<forall>h. Call_undeclare_queryable h \<notin> set (fst (RpcServerImpl_handler s query)))"
  by (simp add: RpcServerImpl_handler_def RpcInfo_ctor_def Let_def Fifo_push_def)

lemma RpcServerImpl_dtor_shuts_down:
  "die (RpcServerImpl.fifo (snd (RpcServerImpl_dtor s)))
   \<and> fst (RpcServerImpl_dtor s) = [Call_undeclare_queryable (qable s)]"
  by (simp add: RpcServerImpl_dtor_def Fifo_exit_def)

text \<open>
  A query whose attachment is missing is refused while its event is built: the constructor
  of \<^verbatim>\<open>RpcInfo\<close> throws before \<^verbatim>\<open>push\<close> is called. \<^verbatim>\<open>handler\<close> makes no call and the queue
  is as it was, so no worker is handed the event.
\<close>

lemma RpcServerImpl_handler_rejects_before_push:
  "\<not> z_check (query_attachment query) \<Longrightarrow>
   RpcServerImpl_handler s query = ([], Some (runtime_error ''attachment is missing''), s)"
  by (simp add: RpcServerImpl_handler_def RpcInfo_ctor_def Let_def)

text \<open>
  Claim C3 says that a query without attachment is refused before it is enqueued, and that
  this one event ends neither the worker pool nor the registration. The first half is what
  the code does. For the second, the code would have to keep the failure away from the
  caller of the callback, and it does not: here a server with one event waiting and its
  queue open is given a query without attachment, and the exception
  \<^verbatim>\<open>runtime_error("attachment is missing")\<close> leaves \<^verbatim>\<open>handler\<close> and then the C callback
  \<^verbatim>\<open>_handler\<close>, uncaught, into the thread of zenoh. A query with its attachment, on the
  same server, returns to zenoh normally.
\<close>

theorem RpcServerImpl_static_handler_exception_escapes:
  "RpcServerImpl_static_handler
     \<lparr>RpcServerImpl.session = \<lparr>start_doc = '''', SessionImpl.session = 0\<rparr>, qable = Some 3,
      RpcServerImpl.fifo =
        \<lparr>queue = [\<lparr>RpcInfo.keyexpr = ''svc'',
                    RpcInfo.message = \<lparr>payload = ''abc'', attributes = ''m''\<rparr>,
                    owned_query = 6\<rparr>],
         die = False\<rparr>,
      RpcServerImpl.pool = 4,
      RpcServerImpl.callback = (\<lambda>k m. Inr (Some m))\<rparr>
     \<lparr>query_id = 7, query_keyexpr = ''svc'', query_value = ''abc'', query_attachment = None\<rparr>
   = ([], Some (runtime_error ''attachment is missing''),
      \<lparr>RpcServerImpl.session = \<lparr>start_doc = '''', SessionImpl.session = 0\<rparr>, qable = Some 3,
       RpcServerImpl.fifo =
         \<lparr>queue = [\<lparr>RpcInfo.keyexpr = ''svc'',
                     RpcInfo.message = \<lparr>payload = ''abc'', attributes = ''m''\<rparr>,
                     owned_query = 6\<rparr>],
          die = False\<rparr>,
       RpcServerImpl.pool = 4,
       RpcServerImpl.callback = (\<lambda>k m. Inr (Some m))\<rparr>)
   \<and> fst (snd (RpcServerImpl_static_handler
     \<lparr>RpcServerImpl.session = \<lparr>start_doc = '''', SessionImpl.session = 0\<rparr>, qable = Some 3,
      RpcServerImpl.fifo =
        \<lparr>queue = [\<lparr>RpcInfo.keyexpr = ''svc'',
                    RpcInfo.message = \<lparr>payload = ''abc'', attributes = ''m''\<rparr>,
                    owned_query = 6\<rparr>],
         die = False\<rparr>,
      RpcServerImpl.pool = 4,
      RpcServerImpl.callback = (\<lambda>k m. Inr (Some m))\<rparr>
     \<lparr>query_id = 7, query_keyexpr = ''svc'', query_value = ''abc'',
      query_attachment = Some [(''attributes'', ''m'')]\<rparr>)) = None"
  by (simp add: RpcServerImpl_static_handler_def RpcServerImpl_handler_def RpcInfo_ctor_def
      z_check_def Let_def)

text \<open>
  Claim C5. In a run of \<^verbatim>\<open>RpcServerImpl::worker\<close>, the \<^verbatim>\<open>z_query_reply\<close> calls are those
  due on the events it took from the queue, in order: one on the owned query of the event,
  with the payload and attributes the callback returned, when the callback returned a
  Message, and none when it returned nothing. A callback that returns, with or without a
  Message, makes no error.
\<close>

theorem RpcServerImpl_worker_replies:
  "(\<exists>taken. queue (RpcServerImpl.fifo s) =
             taken @ queue (RpcServerImpl.fifo (snd (snd (RpcServerImpl_worker z s))))
     \<and> filter is_query_reply (fst (RpcServerImpl_worker z s)) =
         concat (map (replies_due s) taken))
   \<and> (\<forall>ptr r. RpcServerImpl.callback s (RpcInfo.keyexpr ptr) (RpcInfo.message ptr) = Inr r \<longrightarrow>
         snd (RpcServerImpl_worker_body z s ptr) = None)"
proof -
  obtain taken rest where
    d: "queue (RpcServerImpl.fifo s) = taken @ rest"
      "snd (snd (RpcServerImpl_worker z s)) =
         s\<lparr>RpcServerImpl.fifo := (RpcServerImpl.fifo s)\<lparr>queue := rest\<rparr>\<rparr>"
      "fst (RpcServerImpl_worker z s) =
         concat (map (\<lambda>p. fst (RpcServerImpl_worker_body z s p)) taken)"
    using RpcServerImpl_worker_trace [of s z] by blast
  have "filter is_query_reply (fst (RpcServerImpl_worker z s)) =
          concat (map (replies_due s) taken)"
    by (simp add: d(3) filter_concat comp_def RpcServerImpl_worker_body_replies)
  then have "\<exists>taken. queue (RpcServerImpl.fifo s) =
             taken @ queue (RpcServerImpl.fifo (snd (snd (RpcServerImpl_worker z s))))
     \<and> filter is_query_reply (fst (RpcServerImpl_worker z s)) =
         concat (map (replies_due s) taken)"
    using d(1,2) by (intro exI [of _ taken]) simp
  then show ?thesis
    by (simp add: RpcServerImpl_worker_body_error)
qed

theorem RpcServerImpl_worker_replies_witness:
  "filter is_query_reply (fst (RpcServerImpl_worker
     \<lparr>zenohc_open = Inr 0, z_declare_publisher = (\<lambda>_ _. Some 1),
      z_publisher_put = (\<lambda>_ _ _. 0), declare_subscriber = (\<lambda>_ _. Inr 2),
      z_declare_queryable = (\<lambda>_ _. Some 3), z_query_reply = (\<lambda>_ _ _ _. 0)\<rparr>
     \<lparr>RpcServerImpl.session = \<lparr>start_doc = '''', SessionImpl.session = 0\<rparr>, qable = Some 3,
      RpcServerImpl.fifo =
        \<lparr>queue = [\<lparr>RpcInfo.keyexpr = ''svc'',
                    RpcInfo.message = \<lparr>payload = ''abc'', attributes = ''m''\<rparr>,
                    owned_query = 7\<rparr>,
                   \<lparr>RpcInfo.keyexpr = ''svc'',
                    RpcInfo.message = \<lparr>payload = '''', attributes = ''m''\<rparr>,
                    owned_query = 8\<rparr>],
         die = False\<rparr>,
      RpcServerImpl.pool = 1,
      RpcServerImpl.callback =
        (\<lambda>k m. Inr (if payload m = [] then None
                     else Some \<lparr>payload = rev (payload m), attributes = ''r''\<rparr>))\<rparr>))
   = [Call_query_reply 7 ''svc'' ''cba'' (Some [(''attributes'', ''r'')])]
   \<and> snd (RpcServerImpl_worker_body
     \<lparr>zenohc_open = Inr 0, z_declare_publisher = (\<lambda>_ _. Some 1),
      z_publisher_put = (\<lambda>_ _ _. 0), declare_subscriber = (\<lambda>_ _. Inr 2),
      z_declare_queryable = (\<lambda>_ _. Some 3), z_query_reply = (\<lambda>_ _ _ _. 0)\<rparr>
     \<lparr>RpcServerImpl.session = \<lparr>start_doc = '''', SessionImpl.session = 0\<rparr>, qable = Some 3,
      RpcServerImpl.fifo =
        \<lparr>queue = [\<lparr>RpcInfo.keyexpr = ''svc'',
                    RpcInfo.message = \<lparr>payload = ''abc'', attributes = ''m''\<rparr>,
                    owned_query = 7\<rparr>,
                   \<lparr>RpcInfo.keyexpr = ''svc'',
                    RpcInfo.message = \<lparr>payload = '''', attributes = ''m''\<rparr>,
                    owned_query = 8\<rparr>],
         die = False\<rparr>,
      RpcServerImpl.pool = 1,
      RpcServerImpl.callback =
        (\<lambda>k m. Inr (if payload m = [] then None
                     else Some \<lparr>payload = rev (payload m), attributes = ''r''\<rparr>))\<rparr>
     \<lparr>RpcInfo.keyexpr = ''svc'', RpcInfo.message = \<lparr>payload = '''', attributes = ''m''\<rparr>,
      owned_query = 8\<rparr>) = None"
proof -
  let ?z = "\<lparr>zenohc_open = Inr 0, z_declare_publisher = (\<lambda>_ _. Some 1),
      z_publisher_put = (\<lambda>_ _ _. 0), declare_subscriber = (\<lambda>_ _. Inr 2),
      z_declare_queryable = (\<lambda>_ _. Some 3), z_query_reply = (\<lambda>_ _ _ _. 0)\<rparr>"
  let ?p8 = "\<lparr>RpcInfo.keyexpr = ''svc'', RpcInfo.message = \<lparr>payload = '''', attributes = ''m''\<rparr>,
      owned_query = 8\<rparr>"
  let ?s = "\<lparr>RpcServerImpl.session = \<lparr>start_doc = '''', SessionImpl.session = 0\<rparr>, qable = Some 3,
      RpcServerImpl.fifo =
        \<lparr>queue = [\<lparr>RpcInfo.keyexpr = ''svc'',
                    RpcInfo.message = \<lparr>payload = ''abc'', attributes = ''m''\<rparr>,
                    owned_query = 7\<rparr>, ?p8],
         die = False\<rparr>,
      RpcServerImpl.pool = 1,
      RpcServerImpl.callback =
        (\<lambda>k m. Inr (if payload m = [] then None
                     else Some \<lparr>payload = rev (payload m), attributes = ''r''\<rparr>))\<rparr>"
  note step = RpcServerImpl_worker_replies [of ?s ?z]
  have q: "queue (RpcServerImpl.fifo (snd (snd (RpcServerImpl_worker ?z ?s)))) = []"
    by (simp add: RpcServerImpl_worker.simps RpcServerImpl_worker_body_def Fifo_pull_def)
  from step obtain taken where
    t: "queue (RpcServerImpl.fifo ?s) =
       taken @ queue (RpcServerImpl.fifo (snd (snd (RpcServerImpl_worker ?z ?s))))"
    and d: "filter is_query_reply (fst (RpcServerImpl_worker ?z ?s)) =
       concat (map (replies_due ?s) taken)"
    by blast
  have "taken = queue (RpcServerImpl.fifo ?s)"
    using t q by simp
  then have "filter is_query_reply (fst (RpcServerImpl_worker ?z ?s)) =
       [Call_query_reply 7 ''svc'' ''cba'' (Some [(''attributes'', ''r'')])]"
    using d by (simp add: replies_due_def c_str_def)
  moreover have "snd (RpcServerImpl_worker_body ?z ?s ?p8) = None"
    using step by simp
  ultimately show ?thesis
    by simp
qed

text \<open>
  Claim C4. In a run of \<^verbatim>\<open>RpcServerImpl::worker\<close>, the \<^verbatim>\<open>z_query_drop\<close> calls are one for
  each event it took from the queue, on the owned query of that event, in order: whatever
  the callback did and whatever \<^verbatim>\<open>z_query_reply\<close> answered.
\<close>

theorem RpcServerImpl_worker_releases_once:
  "\<exists>taken. queue (RpcServerImpl.fifo s) =
             taken @ queue (RpcServerImpl.fifo (snd (snd (RpcServerImpl_worker z s))))
     \<and> filter is_query_drop (fst (RpcServerImpl_worker z s)) =
         map (\<lambda>p. Call_query_drop (owned_query p)) taken"
proof -
  obtain taken rest where
    d: "queue (RpcServerImpl.fifo s) = taken @ rest"
      "snd (snd (RpcServerImpl_worker z s)) =
         s\<lparr>RpcServerImpl.fifo := (RpcServerImpl.fifo s)\<lparr>queue := rest\<rparr>\<rparr>"
      "fst (RpcServerImpl_worker z s) =
         concat (map (\<lambda>p. fst (RpcServerImpl_worker_body z s p)) taken)"
    using RpcServerImpl_worker_trace [of s z] by blast
  have "filter is_query_drop (fst (RpcServerImpl_worker z s)) =
          concat (map (\<lambda>p. [Call_query_drop (owned_query p)]) taken)"
    by (simp add: d(3) filter_concat comp_def RpcServerImpl_worker_body_drops)
  also have "\<dots> = map (\<lambda>p. Call_query_drop (owned_query p)) taken"
    by (induction "taken") simp_all
  finally show ?thesis
    using d(1,2) by (intro exI [of _ "taken"]) simp
qed

theorem RpcServerImpl_worker_releases_once_witness:
  "filter is_query_drop (fst (RpcServerImpl_worker
     \<lparr>zenohc_open = Inr 0, z_declare_publisher = (\<lambda>_ _. Some 1),
      z_publisher_put = (\<lambda>_ _ _. 0), declare_subscriber = (\<lambda>_ _. Inr 2),
      z_declare_queryable = (\<lambda>_ _. Some 3), z_query_reply = (\<lambda>_ _ _ _. - 1)\<rparr>
     \<lparr>RpcServerImpl.session = \<lparr>start_doc = '''', SessionImpl.session = 0\<rparr>, qable = Some 3,
      RpcServerImpl.fifo =
        \<lparr>queue = [\<lparr>RpcInfo.keyexpr = ''svc'',
                    RpcInfo.message = \<lparr>payload = ''abc'', attributes = ''m''\<rparr>,
                    owned_query = 7\<rparr>,
                   \<lparr>RpcInfo.keyexpr = ''svc'',
                    RpcInfo.message = \<lparr>payload = '''', attributes = ''m''\<rparr>,
                    owned_query = 8\<rparr>],
         die = False\<rparr>,
      RpcServerImpl.pool = 1,
      RpcServerImpl.callback = (\<lambda>k m. Inr (if payload m = [] then None else Some m))\<rparr>))
   = [Call_query_drop 7, Call_query_drop 8]"
proof -
  let ?z = "\<lparr>zenohc_open = Inr 0, z_declare_publisher = (\<lambda>_ _. Some 1),
      z_publisher_put = (\<lambda>_ _ _. 0), declare_subscriber = (\<lambda>_ _. Inr 2),
      z_declare_queryable = (\<lambda>_ _. Some 3), z_query_reply = (\<lambda>_ _ _ _. - 1)\<rparr>"
  let ?s = "\<lparr>RpcServerImpl.session = \<lparr>start_doc = '''', SessionImpl.session = 0\<rparr>, qable = Some 3,
      RpcServerImpl.fifo =
        \<lparr>queue = [\<lparr>RpcInfo.keyexpr = ''svc'',
                    RpcInfo.message = \<lparr>payload = ''abc'', attributes = ''m''\<rparr>,
                    owned_query = 7\<rparr>,
                   \<lparr>RpcInfo.keyexpr = ''svc'',
                    RpcInfo.message = \<lparr>payload = '''', attributes = ''m''\<rparr>,
                    owned_query = 8\<rparr>],
         die = False\<rparr>,
      RpcServerImpl.pool = 1,
      RpcServerImpl.callback = (\<lambda>k m. Inr (if payload m = [] then None else Some m))\<rparr>"
  have q: "queue (RpcServerImpl.fifo (snd (snd (RpcServerImpl_worker ?z ?s)))) = []"
    by (simp add: RpcServerImpl_worker.simps RpcServerImpl_worker_body_def Fifo_pull_def)
  from RpcServerImpl_worker_releases_once [of ?s ?z] obtain taken where
    t: "queue (RpcServerImpl.fifo ?s) =
       taken @ queue (RpcServerImpl.fifo (snd (snd (RpcServerImpl_worker ?z ?s))))"
    and d: "filter is_query_drop (fst (RpcServerImpl_worker ?z ?s)) =
       map (\<lambda>p. Call_query_drop (owned_query p)) taken"
    by blast
  have "taken = queue (RpcServerImpl.fifo ?s)"
    using t q by simp
  then show ?thesis
    using d by simp
qed

text \<open>
  Claim C2 says that a failure of the reply is surfaced as a processing error. Here zenoh
  answers \<^verbatim>\<open>z_query_reply\<close> with a non-zero code; the worker makes the call, releases the
  query and waits for the next event: no exception, and nothing else that tells the failure
  from a success.
\<close>

theorem RpcServerImpl_worker_drops_reply_failure:
  "z_query_reply
     \<lparr>zenohc_open = Inr 0, z_declare_publisher = (\<lambda>_ _. Some 1),
      z_publisher_put = (\<lambda>_ _ _. 0), declare_subscriber = (\<lambda>_ _. Inr 2),
      z_declare_queryable = (\<lambda>_ _. Some 3), z_query_reply = (\<lambda>_ _ _ _. - 1)\<rparr>
     7 ''svc'' ''cba'' (Some [(''attributes'', ''m'')]) \<noteq> 0
   \<and> RpcServerImpl_worker
     \<lparr>zenohc_open = Inr 0, z_declare_publisher = (\<lambda>_ _. Some 1),
      z_publisher_put = (\<lambda>_ _ _. 0), declare_subscriber = (\<lambda>_ _. Inr 2),
      z_declare_queryable = (\<lambda>_ _. Some 3), z_query_reply = (\<lambda>_ _ _ _. - 1)\<rparr>
     \<lparr>RpcServerImpl.session = \<lparr>start_doc = '''', SessionImpl.session = 0\<rparr>, qable = Some 3,
      RpcServerImpl.fifo =
        \<lparr>queue = [\<lparr>RpcInfo.keyexpr = ''svc'',
                    RpcInfo.message = \<lparr>payload = ''abc'', attributes = ''m''\<rparr>,
                    owned_query = 7\<rparr>],
         die = False\<rparr>,
      RpcServerImpl.pool = 1,
      RpcServerImpl.callback = (\<lambda>k m. Inr (Some \<lparr>payload = rev (payload m), attributes = attributes m\<rparr>))\<rparr>
   = ([Call_rpc_callback ''svc'' \<lparr>payload = ''abc'', attributes = ''m''\<rparr>,
       Call_query_reply 7 ''svc'' ''cba'' (Some [(''attributes'', ''m'')]),
       Call_query_drop 7],
      Waiting,
      \<lparr>RpcServerImpl.session = \<lparr>start_doc = '''', SessionImpl.session = 0\<rparr>, qable = Some 3,
       RpcServerImpl.fifo = \<lparr>queue = [], die = False\<rparr>,
       RpcServerImpl.pool = 1,
       RpcServerImpl.callback = (\<lambda>k m. Inr (Some \<lparr>payload = rev (payload m), attributes = attributes m\<rparr>))\<rparr>)"
  by (simp add: RpcServerImpl_worker.simps RpcServerImpl_worker_body_def Fifo_pull_def
      RpcInfo_dtor_def z_bytes_map_insert_by_alias_def z_bytes_map_as_attachment_def pack_def
      c_str_def)

end
